theory Spec2Isabelle
  imports Main
begin

section \<open>The agent manager of the desktop host (apps/desktop/main/agent-manager.ts)\<close>

text \<open>
  The source is one class, \<^verbatim>\<open>AgentManager\<close>, with two nullable fields and three
  asynchronous methods. Each method awaits at most one promise of a collaborator
  (\<^verbatim>\<open>Client.connect\<close>, \<^verbatim>\<open>Client.callTool\<close>, \<^verbatim>\<open>StdioClientTransport.close\<close>).
  The embedding runs a method call to completion in one step: the way the awaited
  promise settles is an argument of the method, the fields of the instance and the
  observable effects (console lines, file-system checks, calls made on the
  collaborators) are passed through explicitly, and a rejected promise is the
  left injection of a sum. Interleavings of calls that are suspended at their
  \<^verbatim>\<open>await\<close> are outside this model.
\<close>

subsection \<open>JavaScript values\<close>

text \<open>
  Strings are byte lists; the two symbols outside ASCII that the log lines contain are
  written as their UTF-8 bytes. \<open>JError n m\<close> is an instance of the error class
  named \<open>n\<close> with message \<open>m\<close>.
\<close>

datatype js_value =
    JUndefined
  | JNull
  | JBool bool
  | JStr string
  | JError string string

text \<open>A plain object: its own properties, in insertion order.\<close>

type_synonym js_object = "(string \<times> js_value) list"

text \<open>Reading a property of an object; a property that is absent reads as \<^verbatim>\<open>undefined\<close>.\<close>

definition get_prop :: "js_object \<Rightarrow> string \<Rightarrow> js_value" where
  "get_prop obj k = (case map_of obj k of None \<Rightarrow> JUndefined | Some v \<Rightarrow> v)"

text \<open>
  How an awaited promise settles: \<open>Inl e\<close> when it rejects with \<open>e\<close> (which the
  \<^verbatim>\<open>await\<close> throws), \<open>Inr v\<close> when it is fulfilled with \<open>v\<close>.
\<close>

type_synonym 'a settled = "js_value + 'a"

subsection \<open>The collaborators\<close>

text \<open>
  The transport and the client are objects of the imported SDK. An object is the
  arguments its constructor was given, with the number of its allocation as identity.
\<close>

record StdioClientTransport =
  transport_id :: nat
  command :: string
  args :: "string list"

record Client =
  client_id :: nat
  client_name :: string
  client_version :: string
  capabilities :: js_object

text \<open>The result of a tool call: the method reads its \<^verbatim>\<open>content\<close> array only.\<close>

record CallToolResult =
  content :: "js_object list"

text \<open>
  What the method \<^verbatim>\<open>start\<close> takes from Node: the directory of the module, the two path
  functions and the file-system check. They are parameters of the model.
\<close>

record node_env =
  dirname :: string
  path_resolve :: "string \<Rightarrow> string \<Rightarrow> string"
  path_join :: "string \<Rightarrow> string \<Rightarrow> string"
  existsSync :: "string \<Rightarrow> bool"

subsection \<open>Observable effects\<close>

datatype event =
    ConsoleLog string "js_value list"
  | ConsoleError string "js_value list"
  | ExistsSync string
  | NewTransport StdioClientTransport
  | NewClient Client
  | Connect Client StdioClientTransport
  | CallTool Client string js_object
  | Close StdioClientTransport

text \<open>The world outside the instance: the object allocator and the effects so far, oldest first.\<close>

record world =
  next_id :: nat
  trace :: "event list"

definition emit :: "event \<Rightarrow> world \<Rightarrow> world" where
  "emit ev w = w\<lparr>trace := trace w @ [ev]\<rparr>"

definition console_log :: "string \<Rightarrow> js_value list \<Rightarrow> world \<Rightarrow> world" where
  "console_log msg rest w = emit (ConsoleLog msg rest) w"

definition console_error :: "string \<Rightarrow> js_value list \<Rightarrow> world \<Rightarrow> world" where
  "console_error msg rest w = emit (ConsoleError msg rest) w"

definition new_StdioClientTransport ::
    "string \<Rightarrow> string list \<Rightarrow> world \<Rightarrow> StdioClientTransport \<times> world" where
  "new_StdioClientTransport cmd as w =
     (let t = \<lparr>transport_id = next_id w, command = cmd, args = as\<rparr>
      in (t, emit (NewTransport t) (w\<lparr>next_id := Suc (next_id w)\<rparr>)))"

definition new_Client :: "string \<Rightarrow> string \<Rightarrow> js_object \<Rightarrow> world \<Rightarrow> Client \<times> world" where
  "new_Client n v caps w =
     (let c = \<lparr>client_id = next_id w, client_name = n, client_version = v,
                capabilities = caps\<rparr>
      in (c, emit (NewClient c) (w\<lparr>next_id := Suc (next_id w)\<rparr>)))"

text \<open>The events that were added between an earlier world and a later one.\<close>

definition emitted :: "world \<Rightarrow> world \<Rightarrow> event list" where
  "emitted w w' = drop (length (trace w)) (trace w')"

subsection \<open>The class\<close>

record AgentManager =
  client :: "Client option"
  transport :: "StdioClientTransport option"

text \<open>\<^verbatim>\<open>new AgentManager()\<close>: both fields are initialised to \<^verbatim>\<open>null\<close>.\<close>

definition new_AgentManager :: AgentManager where
  "new_AgentManager = \<lparr>client = None, transport = None\<rparr>"

definition cross_mark :: string where
  "cross_mark = [CHR 0xE2, CHR 0x9D, CHR 0x8C]"

definition envelope_mark :: string where
  "envelope_mark = [CHR 0xF0, CHR 0x9F, CHR 0x93, CHR 0xA9]"

definition pythonPath_of :: "node_env \<Rightarrow> string" where
  "pythonPath_of env =
     path_join env (path_resolve env (dirname env) ''../../..'')
       ''agents/transcriber/.venv/bin/python''"

definition scriptPath_of :: "node_env \<Rightarrow> string" where
  "scriptPath_of env =
     path_join env (path_resolve env (dirname env) ''../../..'')
       ''agents/transcriber/main.py''"

definition start ::
    "node_env \<Rightarrow> unit settled \<Rightarrow> AgentManager \<times> world
       \<Rightarrow> unit settled \<times> AgentManager \<times> world" where
  "start env connected = (\<lambda>(this, w0).
     (let w1 = console_log ''[AgentManager] Starting Transcriber Agent...'' [] w0;
          pythonPath = pythonPath_of env;
          scriptPath = scriptPath_of env;
          w2 = console_log (''[AgentManager] Python: '' @ pythonPath) [] w1;
          w3 = console_log (''[AgentManager] Script: '' @ scriptPath) [] w2;
          w4 = emit (ExistsSync pythonPath) w3;
          w5 = (if \<not> existsSync env pythonPath
                then (let wa = console_error
                                 (''[AgentManager] '' @ cross_mark
                                    @ '' Critical Error: Python not found at '' @ pythonPath) [] w4
                      in console_error
                           (''[AgentManager] Run '' @ [CHR 0x22] @ ''uv sync'' @ [CHR 0x22]
                              @ '' in agents/transcriber/ to create the venv.'') [] wa)
                else w4);
          w6 = emit (ExistsSync scriptPath) w5;
          w7 = (if \<not> existsSync env scriptPath
                then console_error
                       (''[AgentManager] '' @ cross_mark
                          @ '' Critical Error: Script not found at '' @ scriptPath) [] w6
                else w6);
          (t, w8) = new_StdioClientTransport pythonPath [scriptPath] w7;
          this1 = this\<lparr>transport := Some t\<rparr>;
          (c, w9) = new_Client ''electron-host'' ''1.0.0'' [] w8;
          this2 = this1\<lparr>client := Some c\<rparr>;
          w10 = emit (Connect c t) w9
      in case connected of
           Inr _ \<Rightarrow>
             (Inr (), this2, console_log ''[AgentManager] Connected to Transcriber Agent!'' [] w10)
         | Inl error \<Rightarrow>
             (Inr (), this2, console_error ''[AgentManager] Connection failed:'' [error] w10)))"

text \<open>
  \<^verbatim>\<open>(result.content[0] as any).text\<close>: indexing an array beyond its length gives
  \<^verbatim>\<open>undefined\<close>, and reading a property of \<^verbatim>\<open>undefined\<close> throws a \<^verbatim>\<open>TypeError\<close>
  (its message is the one V8 gives). The statement stands inside the \<^verbatim>\<open>try\<close> block of
  \<^verbatim>\<open>pingAgent\<close>, so the handler of that block catches what it throws.
\<close>

definition first_text :: "CallToolResult \<Rightarrow> js_value settled" where
  "first_text result =
     (case content result of
        [] \<Rightarrow> Inl (JError ''TypeError''
                     ''Cannot read properties of undefined (reading 'text')'')
      | b # _ \<Rightarrow> Inr (get_prop b ''text''))"

definition pingAgent ::
    "CallToolResult settled \<Rightarrow> AgentManager \<times> world
       \<Rightarrow> js_value settled \<times> AgentManager \<times> world" where
  "pingAgent called = (\<lambda>(this, w0).
     (case client this of
        None \<Rightarrow> (Inr (JStr ''Client not initialized''), this, w0)
      | Some c \<Rightarrow>
          (let w1 = console_log ''[AgentManager] Sending 'ping' tool call...'' [] w0;
               w2 = emit (CallTool c ''ping'' []) w1
           in case (case called of Inl e \<Rightarrow> Inl e | Inr result \<Rightarrow> first_text result) of
                Inr text \<Rightarrow>
                  (Inr text, this,
                   console_log (''[AgentManager] '' @ envelope_mark @ '' Received:'') [text] w2)
              | Inl error \<Rightarrow>
                  (Inl error, this, console_error ''[AgentManager] Ping failed:'' [error] w2))))"

definition stop ::
    "unit settled \<Rightarrow> AgentManager \<times> world \<Rightarrow> unit settled \<times> AgentManager \<times> world" where
  "stop closed = (\<lambda>(this, w0).
     (case transport this of
        None \<Rightarrow> (Inr (), this, w0)
      | Some t \<Rightarrow>
          (let w1 = emit (Close t) w0
           in case closed of
                Inl error \<Rightarrow> (Inl error, this, w1)
              | Inr _ \<Rightarrow> (Inr (), this, console_log ''[AgentManager] Transport closed.'' [] w1))))"

subsection \<open>Sequences of calls on one instance\<close>

datatype call =
    Start node_env "unit settled"
  | PingAgent "CallToolResult settled"
  | Stop "unit settled"

fun is_start :: "call \<Rightarrow> bool" where
  "is_start (Start _ _) = True"
| "is_start _ = False"

text \<open>
  One call, with what its caller sees: the value an \<^verbatim>\<open>async\<close> method without
  \<^verbatim>\<open>return\<close> resolves with is \<^verbatim>\<open>undefined\<close>.
\<close>

definition undefined_result :: "unit settled \<Rightarrow> js_value settled" where
  "undefined_result r = (case r of Inl e \<Rightarrow> Inl e | Inr _ \<Rightarrow> Inr JUndefined)"

fun exec :: "call \<Rightarrow> AgentManager \<times> world \<Rightarrow> js_value settled \<times> AgentManager \<times> world" where
  "exec (Start env connected) s = (case start env connected s of (r, s') \<Rightarrow> (undefined_result r, s'))"
| "exec (PingAgent called) s = pingAgent called s"
| "exec (Stop closed) s = (case stop closed s of (r, s') \<Rightarrow> (undefined_result r, s'))"

text \<open>
  A caller that goes on after every call, whether it resolved or rejected: the state
  after the whole sequence.
\<close>

fun run :: "call list \<Rightarrow> AgentManager \<times> world \<Rightarrow> AgentManager \<times> world" where
  "run [] s = s"
| "run (c # cs) s = run cs (snd (exec c s))"

definition init_world :: world where
  "init_world = \<lparr>next_id = 0, trace = []\<rparr>"

text \<open>
  A sample Node environment, for running the model on concrete input: the module lies in
  \<^verbatim>\<open>/opt/subs-genie/apps/desktop/main\<close>, so that \<^verbatim>\<open>path.resolve\<close> answers the
  project root, \<^verbatim>\<open>path.join\<close> puts a slash between its arguments, and neither file is there.
\<close>

definition env0 :: node_env where
  "env0 = \<lparr>dirname = ''/opt/subs-genie/apps/desktop/main'',
           path_resolve = (\<lambda>a b. ''/opt/subs-genie''),
           path_join = (\<lambda>a b. a @ ''/'' @ b),
           existsSync = (\<lambda>p. False)\<rparr>"

text \<open>The events that are calls of \<^verbatim>\<open>close\<close> on a transport.\<close>

fun is_close :: "event \<Rightarrow> bool" where
  "is_close (Close _) = True"
| "is_close _ = False"

text \<open>Sample values for running the model: an error object and two results of a tool call.\<close>

definition spawn_error :: js_value where
  "spawn_error = JError ''Error'' ''spawn ENOENT''"

definition pong_result :: CallToolResult where
  "pong_result = \<lparr>content = [[(''type'', JStr ''text''), (''text'', JStr ''pong'')]]\<rparr>"

definition sentinel_result :: CallToolResult where
  "sentinel_result =
     \<lparr>content = [[(''type'', JStr ''text''), (''text'', JStr ''Client not initialized'')]]\<rparr>"

section \<open>Properties of the operations\<close>

subsection \<open>The world operations\<close>

lemma trace_emit [simp]: "trace (emit ev w) = trace w @ [ev]"
  by (simp add: emit_def)

lemma next_id_emit [simp]: "next_id (emit ev w) = next_id w"
  by (simp add: emit_def)

lemma trace_console_log [simp]: "trace (console_log m r w) = trace w @ [ConsoleLog m r]"
  by (simp add: console_log_def)

lemma next_id_console_log [simp]: "next_id (console_log m r w) = next_id w"
  by (simp add: console_log_def)

lemma trace_console_error [simp]: "trace (console_error m r w) = trace w @ [ConsoleError m r]"
  by (simp add: console_error_def)

lemma next_id_console_error [simp]: "next_id (console_error m r w) = next_id w"
  by (simp add: console_error_def)

lemma new_transport_simps [simp]:
  "fst (new_StdioClientTransport cmd as w) = \<lparr>transport_id = next_id w, command = cmd, args = as\<rparr>"
  "trace (snd (new_StdioClientTransport cmd as w)) =
     trace w @ [NewTransport \<lparr>transport_id = next_id w, command = cmd, args = as\<rparr>]"
  "next_id (snd (new_StdioClientTransport cmd as w)) = Suc (next_id w)"
  by (simp_all add: new_StdioClientTransport_def Let_def)

lemma new_client_simps [simp]:
  "fst (new_Client n v caps w) =
     \<lparr>client_id = next_id w, client_name = n, client_version = v, capabilities = caps\<rparr>"
  "trace (snd (new_Client n v caps w)) =
     trace w @ [NewClient \<lparr>client_id = next_id w, client_name = n, client_version = v,
                           capabilities = caps\<rparr>]"
  "next_id (snd (new_Client n v caps w)) = Suc (next_id w)"
  by (simp_all add: new_Client_def Let_def)

subsection \<open>What one call of each method does\<close>

lemma start_transport:
  "transport (fst (snd (start env connected (this, w)))) =
     Some \<lparr>transport_id = next_id w, command = pythonPath_of env, args = [scriptPath_of env]\<rparr>"
  by (cases connected) (simp_all add: start_def Let_def split_def)

lemma start_client:
  "client (fst (snd (start env connected (this, w)))) =
     Some \<lparr>client_id = Suc (next_id w), client_name = ''electron-host'',
            client_version = ''1.0.0'', capabilities = []\<rparr>"
  by (cases connected) (simp_all add: start_def Let_def split_def)

lemma start_trace:
  "trace (snd (snd (start env connected (this, w)))) =
     trace w
     @ [ConsoleLog ''[AgentManager] Starting Transcriber Agent...'' [],
        ConsoleLog (''[AgentManager] Python: '' @ pythonPath_of env) [],
        ConsoleLog (''[AgentManager] Script: '' @ scriptPath_of env) [],
        ExistsSync (pythonPath_of env)]
     @ (if existsSync env (pythonPath_of env) then []
        else [ConsoleError (''[AgentManager] '' @ cross_mark
                @ '' Critical Error: Python not found at '' @ pythonPath_of env) [],
              ConsoleError (''[AgentManager] Run '' @ [CHR 0x22] @ ''uv sync'' @ [CHR 0x22]
                @ '' in agents/transcriber/ to create the venv.'') []])
     @ [ExistsSync (scriptPath_of env)]
     @ (if existsSync env (scriptPath_of env) then []
        else [ConsoleError (''[AgentManager] '' @ cross_mark
                @ '' Critical Error: Script not found at '' @ scriptPath_of env) []])
     @ [NewTransport \<lparr>transport_id = next_id w, command = pythonPath_of env,
                       args = [scriptPath_of env]\<rparr>,
        NewClient \<lparr>client_id = Suc (next_id w), client_name = ''electron-host'',
                    client_version = ''1.0.0'', capabilities = []\<rparr>,
        Connect \<lparr>client_id = Suc (next_id w), client_name = ''electron-host'',
                  client_version = ''1.0.0'', capabilities = []\<rparr>
                \<lparr>transport_id = next_id w, command = pythonPath_of env,
                  args = [scriptPath_of env]\<rparr>,
        (case connected of
           Inr _ \<Rightarrow> ConsoleLog ''[AgentManager] Connected to Transcriber Agent!'' []
         | Inl error \<Rightarrow> ConsoleError ''[AgentManager] Connection failed:'' [error])]"
  by (cases connected; cases "existsSync env (pythonPath_of env)";
      cases "existsSync env (scriptPath_of env)")
     (simp_all add: start_def Let_def split_def)

lemma start_result: "fst (start env connected s) = Inr ()"
  by (cases s; cases connected) (simp_all add: start_def Let_def split_def)

lemma first_text_empty:
  "content r = [] \<Longrightarrow>
   first_text r = Inl (JError ''TypeError'' ''Cannot read properties of undefined (reading 'text')'')"
  by (simp add: first_text_def)

lemma first_text_nonempty: "content r = b # bs \<Longrightarrow> first_text r = Inr (get_prop b ''text'')"
  by (simp add: first_text_def)

lemma pingAgent_null:
  "client (fst s) = None \<Longrightarrow> pingAgent called s = (Inr (JStr ''Client not initialized''), s)"
  by (cases s) (simp add: pingAgent_def)

lemma pingAgent_result:
  "client (fst s) = Some c \<Longrightarrow>
   fst (pingAgent called s) = (case called of Inl e \<Rightarrow> Inl e | Inr result \<Rightarrow> first_text result)"
  by (cases s) (simp add: pingAgent_def Let_def split: sum.splits)

lemma pingAgent_fields: "fst (snd (pingAgent called s)) = fst s"
  by (cases s) (simp add: pingAgent_def Let_def split: sum.splits option.splits)

lemma pingAgent_trace:
  "client (fst s) = Some c \<Longrightarrow>
   trace (snd (snd (pingAgent called s))) =
     trace (snd s)
     @ [ConsoleLog ''[AgentManager] Sending 'ping' tool call...'' [],
        CallTool c ''ping'' [],
        (case (case called of Inl e \<Rightarrow> Inl e | Inr result \<Rightarrow> first_text result) of
           Inr text \<Rightarrow> ConsoleLog (''[AgentManager] '' @ envelope_mark @ '' Received:'') [text]
         | Inl error \<Rightarrow> ConsoleError ''[AgentManager] Ping failed:'' [error])]"
  by (cases s) (simp add: pingAgent_def Let_def split: sum.splits)

lemma stop_fields: "fst (snd (stop closed s)) = fst s"
  by (cases s) (simp add: stop_def Let_def split: sum.splits option.splits)

lemma stop_result:
  "fst (stop closed s) = (case transport (fst s) of None \<Rightarrow> Inr () | Some t \<Rightarrow> closed)"
  by (cases s) (simp add: stop_def Let_def split: sum.splits option.splits)

lemma stop_trace:
  "trace (snd (snd (stop closed s))) =
     trace (snd s)
     @ (case transport (fst s) of
          None \<Rightarrow> []
        | Some t \<Rightarrow>
            Close t # (case closed of Inl error \<Rightarrow> []
                       | Inr _ \<Rightarrow> [ConsoleLog ''[AgentManager] Transport closed.'' []]))"
  by (cases s) (simp add: stop_def Let_def split: sum.splits option.splits)

lemma exec_client:
  "client (fst (snd (exec c s))) = None \<longleftrightarrow> \<not> is_start c \<and> client (fst s) = None"
  by (cases c; cases s) (simp_all add: start_client pingAgent_fields stop_fields split_def)

lemma exec_transport:
  "transport (fst (snd (exec c s))) = None \<longleftrightarrow> \<not> is_start c \<and> transport (fst s) = None"
  by (cases c; cases s) (simp_all add: start_transport pingAgent_fields stop_fields split_def)

lemma run_client:
  "client (fst (run cs s)) = None \<longleftrightarrow> \<not> list_ex is_start cs \<and> client (fst s) = None"
  by (induction cs arbitrary: s) (auto simp: exec_client)

lemma run_transport:
  "transport (fst (run cs s)) = None \<longleftrightarrow> \<not> list_ex is_start cs \<and> transport (fst s) = None"
  by (induction cs arbitrary: s) (auto simp: exec_transport)

lemma stop_emitted:
  "emitted (snd s) (snd (snd (stop closed s))) =
     (case transport (fst s) of
        None \<Rightarrow> []
      | Some t \<Rightarrow>
          Close t # (case closed of Inl error \<Rightarrow> []
                     | Inr _ \<Rightarrow> [ConsoleLog ''[AgentManager] Transport closed.'' []]))"
  by (simp add: emitted_def stop_trace)

lemma stop_null: "transport (fst s) = None \<Longrightarrow> stop closed s = (Inr (), s)"
  by (cases s) (simp add: stop_def)

lemma stop_twice_closes:
  assumes "transport (fst s) = Some t"
  shows "filter is_close (emitted (snd s) (snd (snd (stop closed' (snd (stop closed s))))))
           = [Close t, Close t]"
proof -
  let ?s1 = "snd (stop closed s)"
  have t1: "transport (fst ?s1) = Some t"
    using assms by (simp add: stop_fields)
  have "trace (snd (snd (stop closed' ?s1))) =
          trace (snd s)
          @ (Close t # (case closed of Inl error \<Rightarrow> []
                        | Inr _ \<Rightarrow> [ConsoleLog ''[AgentManager] Transport closed.'' []]))
          @ (Close t # (case closed' of Inl error \<Rightarrow> []
                        | Inr _ \<Rightarrow> [ConsoleLog ''[AgentManager] Transport closed.'' []]))"
    using assms t1 by (simp add: stop_trace)
  then show ?thesis
    by (simp add: emitted_def split: sum.splits)
qed

subsection \<open>Connection attempts in the trace\<close>

lemma exec_connect:
  "\<exists>evs. trace (snd (snd (exec c s))) = trace (snd s) @ evs
         \<and> ((\<exists>cl t. Connect cl t \<in> set evs) \<longleftrightarrow> is_start c)"
proof (cases c)
  case (Start env connected)
  obtain this w where s: "s = (this, w)" by (cases s)
  show ?thesis
    unfolding Start s by (auto simp: split_def start_trace)
next
  case (PingAgent called)
  show ?thesis
  proof (cases "client (fst s)")
    case None
    then show ?thesis unfolding PingAgent by (simp add: pingAgent_null)
  next
    case (Some cl)
    then show ?thesis unfolding PingAgent
      by (simp add: pingAgent_trace split: sum.splits)
  qed
next
  case (Stop closed)
  show ?thesis
    unfolding Stop by (simp add: split_def stop_trace split: option.splits sum.splits)
qed

lemma run_connect:
  "\<exists>evs. trace (snd (run cs s)) = trace (snd s) @ evs
         \<and> ((\<exists>cl t. Connect cl t \<in> set evs) \<longleftrightarrow> list_ex is_start cs)"
proof (induction cs arbitrary: s)
  case Nil
  show ?case by simp
next
  case (Cons c cs)
  obtain evs1 where e1: "trace (snd (snd (exec c s))) = trace (snd s) @ evs1"
      "(\<exists>cl t. Connect cl t \<in> set evs1) \<longleftrightarrow> is_start c"
    using exec_connect [of c s] by blast
  obtain evs2 where e2: "trace (snd (run cs (snd (exec c s)))) = trace (snd (snd (exec c s))) @ evs2"
      "(\<exists>cl t. Connect cl t \<in> set evs2) \<longleftrightarrow> list_ex is_start cs"
    using Cons.IH [of "snd (exec c s)"] by blast
  have "trace (snd (run (c # cs) s)) = trace (snd s) @ (evs1 @ evs2)"
    using e1(1) e2(1) by simp
  moreover have "(\<exists>cl t. Connect cl t \<in> set (evs1 @ evs2)) \<longleftrightarrow> list_ex is_start (c # cs)"
    using e1(2) e2(2) by auto
  ultimately show ?case by blast
qed

lemma run_emitted_connect:
  "(\<exists>cl t. Connect cl t \<in> set (emitted (snd s) (snd (run cs s)))) \<longleftrightarrow> list_ex is_start cs"
proof -
  obtain evs where "trace (snd (run cs s)) = trace (snd s) @ evs"
      "(\<exists>cl t. Connect cl t \<in> set evs) \<longleftrightarrow> list_ex is_start cs"
    using run_connect [of cs s] by blast
  then show ?thesis by (simp add: emitted_def)
qed

section \<open>The claims\<close>

text \<open>
  C1. Whether the promise of \<^verbatim>\<open>connect\<close> is fulfilled or rejected, \<^verbatim>\<open>start\<close> resolves
  with the empty result and never rejects. A rejection is logged and dropped: the last
  line written is the connection failure with the error, and the fields of the instance
  are the same as after a successful connect, so nothing records the failure.
\<close>

theorem start_never_rejects:
  "fst (start env connected s) = Inr ()
   \<and> fst (snd (start env (Inl e) s)) = fst (snd (start env (Inr ()) s))
   \<and> last (emitted (snd s) (snd (snd (start env (Inl e) s))))
       = ConsoleError ''[AgentManager] Connection failed:'' [e]"
proof -
  obtain this w where s: "s = (this, w)" by (cases s)
  have "fst (snd (start env (Inl e) s)) = fst (snd (start env (Inr ()) s))"
    unfolding s by (simp add: start_def Let_def split_def)
  moreover have "last (emitted (snd s) (snd (snd (start env (Inl e) s))))
       = ConsoleError ''[AgentManager] Connection failed:'' [e]"
    unfolding s by (simp add: emitted_def start_trace)
  ultimately show ?thesis by (simp add: start_result)
qed

theorem start_never_rejects_witness:
  "fst (start env0 (Inl spawn_error) (new_AgentManager, init_world)) = Inr ()
   \<and> last (emitted init_world
             (snd (snd (start env0 (Inl spawn_error) (new_AgentManager, init_world)))))
       = ConsoleError ''[AgentManager] Connection failed:'' [JError ''Error'' ''spawn ENOENT'']"
  using start_never_rejects [of env0 "Inl spawn_error" "(new_AgentManager, init_world)" spawn_error]
  by (simp add: spawn_error_def)

text \<open>
  C2. On an instance whose \<^verbatim>\<open>client\<close> field is null, \<^verbatim>\<open>pingAgent\<close> returns the string
  \<^verbatim>\<open>Client not initialized\<close> as an ordinary result and leaves the instance and the
  world as they were: no line is logged and no call goes to a collaborator. The field is
  null on every instance that has seen no call of \<^verbatim>\<open>start\<close>, whatever other calls it
  has seen.
\<close>

theorem pingAgent_before_start:
  "(client (fst s) = None \<longrightarrow>
      pingAgent called s = (Inr (JStr ''Client not initialized''), s))
   \<and> (\<not> list_ex is_start cs \<longrightarrow> client (fst (run cs (new_AgentManager, w))) = None)"
  by (simp add: pingAgent_null run_client new_AgentManager_def)

theorem pingAgent_before_start_witness:
  "client (fst (run [Stop (Inr ()), PingAgent (Inl JNull)] (new_AgentManager, init_world))) = None
   \<and> pingAgent (Inr pong_result)
        (run [Stop (Inr ()), PingAgent (Inl JNull)] (new_AgentManager, init_world))
       = (Inr (JStr ''Client not initialized''),
          run [Stop (Inr ()), PingAgent (Inl JNull)] (new_AgentManager, init_world))"
  using pingAgent_before_start
    [of "run [Stop (Inr ()), PingAgent (Inl JNull)] (new_AgentManager, init_world)"
        "Inr pong_result" "[Stop (Inr ()), PingAgent (Inl JNull)]" init_world]
  by simp

text \<open>
  C3, as amended. When the promise of \<^verbatim>\<open>callTool\<close> rejects with an error, \<^verbatim>\<open>pingAgent\<close>
  logs that error and rejects with the very same error. \<^verbatim>\<open>start\<close> never rejects.
  \<^verbatim>\<open>stop\<close> rejects exactly when there is a transport and its \<^verbatim>\<open>close\<close> rejects, and
  then with the error of \<^verbatim>\<open>close\<close>: \<^verbatim>\<open>pingAgent\<close> is not the only method that passes a
  failure on to its caller.
\<close>

theorem pingAgent_rethrows:
  "(client (fst s) = Some c \<longrightarrow>
      fst (pingAgent (Inl e) s) = Inl e
      \<and> last (trace (snd (snd (pingAgent (Inl e) s))))
          = ConsoleError ''[AgentManager] Ping failed:'' [e])
   \<and> fst (start env connected s) = Inr ()
   \<and> (fst (stop closed s) = Inl e' \<longleftrightarrow> transport (fst s) \<noteq> None \<and> closed = Inl e')"
  by (auto simp: pingAgent_result pingAgent_trace start_result stop_result split: option.splits)

theorem pingAgent_rethrows_witness:
  "fst (pingAgent (Inl (JError ''McpError'' ''Connection closed''))
         (snd (start env0 (Inl spawn_error) (new_AgentManager, init_world))))
     = Inl (JError ''McpError'' ''Connection closed'')
   \<and> fst (stop (Inl JNull) (snd (start env0 (Inl spawn_error) (new_AgentManager, init_world))))
     = Inl JNull"
  using pingAgent_rethrows
    [of "snd (start env0 (Inl spawn_error) (new_AgentManager, init_world))" _
        "JError ''McpError'' ''Connection closed''" env0 "Inr ()" "Inl JNull" JNull]
  by (simp add: start_client start_transport)

text \<open>
  The claim as it was stated fails at \<^verbatim>\<open>stop\<close>: after a \<^verbatim>\<open>start\<close>, a \<^verbatim>\<open>close\<close> that
  rejects makes \<^verbatim>\<open>stop\<close> reject with the same error.
\<close>

theorem stop_rejects_counterexample:
  "fst (stop (Inl (JError ''Error'' ''write EPIPE''))
         (snd (start env0 (Inr ()) (new_AgentManager, init_world))))
     = Inl (JError ''Error'' ''write EPIPE'')"
  by (simp add: stop_result start_transport)

text \<open>
  C4. When there is a client and \<^verbatim>\<open>callTool\<close> is fulfilled with a result whose content
  has a first element, \<^verbatim>\<open>pingAgent\<close> returns the \<^verbatim>\<open>text\<close> property of that element.
\<close>

theorem pingAgent_first_text:
  "client (fst s) = Some c \<Longrightarrow> content result = b # bs \<Longrightarrow>
   fst (pingAgent (Inr result) s) = Inr (get_prop b ''text'')"
  by (simp add: pingAgent_result first_text_nonempty)

theorem pingAgent_first_text_witness:
  "content pong_result = [[(''type'', JStr ''text''), (''text'', JStr ''pong'')]]
   \<and> fst (pingAgent (Inr pong_result)
            (snd (start env0 (Inr ()) (new_AgentManager, init_world))))
       = Inr (JStr ''pong'')"
  using pingAgent_first_text [OF start_client, of pong_result
      "[(''type'', JStr ''text''), (''text'', JStr ''pong'')]" "[]" env0 "Inr ()"
      new_AgentManager init_world]
  by (simp add: pong_result_def get_prop_def)

text \<open>
  C5. When there is a client and \<^verbatim>\<open>callTool\<close> is fulfilled with a result whose content
  is empty, \<^verbatim>\<open>pingAgent\<close> does not return: reading \<^verbatim>\<open>text\<close> of the missing first element
  throws a \<^verbatim>\<open>TypeError\<close>, which passes through the handler of the method (it is logged as
  a failed ping) and reaches the caller as a rejection.
\<close>

theorem pingAgent_empty_content_faults:
  "client (fst s) = Some c \<Longrightarrow> content result = [] \<Longrightarrow>
   fst (pingAgent (Inr result) s)
     = Inl (JError ''TypeError'' ''Cannot read properties of undefined (reading 'text')'')
   \<and> last (trace (snd (snd (pingAgent (Inr result) s))))
     = ConsoleError ''[AgentManager] Ping failed:''
         [JError ''TypeError'' ''Cannot read properties of undefined (reading 'text')'']"
  by (simp add: pingAgent_result pingAgent_trace first_text_empty)

theorem pingAgent_empty_content_faults_witness:
  "fst (pingAgent (Inr \<lparr>content = []\<rparr>)
         (snd (start env0 (Inr ()) (new_AgentManager, init_world))))
     = Inl (JError ''TypeError'' ''Cannot read properties of undefined (reading 'text')'')"
  using pingAgent_empty_content_faults [OF start_client, of "\<lparr>content = []\<rparr>" env0 "Inr ()"
      new_AgentManager init_world]
  by simp



text \<open>
  C7. One call of \<^verbatim>\<open>stop\<close> awaits \<^verbatim>\<open>close\<close> on the transport of the instance exactly
  when there is one: with a transport its outcome is the outcome of \<^verbatim>\<open>close\<close> (it
  rejects when \<^verbatim>\<open>close\<close> rejects), its effects are the one call of \<^verbatim>\<open>close\<close> and,
  only after \<^verbatim>\<open>close\<close> is fulfilled, the line that reports the closing; without a
  transport it resolves and has no effect. It leaves both fields as they were. On an
  instance that has seen no \<^verbatim>\<open>start\<close> it resolves and changes nothing. When there is a
  transport, two calls of \<^verbatim>\<open>stop\<close> in a row call \<^verbatim>\<open>close\<close> twice on that same
  transport.
\<close>

theorem stop_closes_transport:
  "fst (stop closed s) = (case transport (fst s) of None \<Rightarrow> Inr () | Some t \<Rightarrow> closed)
   \<and> emitted (snd s) (snd (snd (stop closed s)))
       = (case transport (fst s) of
            None \<Rightarrow> []
          | Some t \<Rightarrow>
              Close t # (case closed of Inl error \<Rightarrow> []
                         | Inr _ \<Rightarrow> [ConsoleLog ''[AgentManager] Transport closed.'' []]))
   \<and> filter is_close (emitted (snd s) (snd (snd (stop closed s))))
       = (case transport (fst s) of None \<Rightarrow> [] | Some t \<Rightarrow> [Close t])
   \<and> fst (snd (stop closed s)) = fst s
   \<and> (\<not> list_ex is_start cs \<longrightarrow>
        stop closed (run cs (new_AgentManager, w)) = (Inr (), run cs (new_AgentManager, w)))
   \<and> (\<forall>t. transport (fst s) = Some t \<longrightarrow>
        filter is_close (emitted (snd s) (snd (snd (stop closed' (snd (stop closed s))))))
          = [Close t, Close t])"
proof -
  have "filter is_close (emitted (snd s) (snd (snd (stop closed s))))
     = (case transport (fst s) of None \<Rightarrow> [] | Some t \<Rightarrow> [Close t])"
    by (simp add: stop_emitted split: option.splits sum.splits)
  moreover have "\<not> list_ex is_start cs \<longrightarrow>
        stop closed (run cs (new_AgentManager, w)) = (Inr (), run cs (new_AgentManager, w))"
    by (simp add: stop_null run_transport new_AgentManager_def)
  moreover note stop_result [of closed s] stop_emitted [of s closed]
  ultimately show ?thesis
    by (simp add: stop_fields stop_twice_closes)
qed

theorem stop_closes_transport_witness:
  "stop (Inr ()) (run [PingAgent (Inl JNull)] (new_AgentManager, init_world))
     = (Inr (), run [PingAgent (Inl JNull)] (new_AgentManager, init_world))
   \<and> fst (stop (Inr ()) (snd (start env0 (Inr ()) (new_AgentManager, init_world)))) = Inr ()
   \<and> emitted (snd (snd (start env0 (Inr ()) (new_AgentManager, init_world))))
        (snd (snd (stop (Inr ()) (snd (start env0 (Inr ()) (new_AgentManager, init_world))))))
     = [Close \<lparr>transport_id = 0, command = pythonPath_of env0, args = [scriptPath_of env0]\<rparr>,
        ConsoleLog ''[AgentManager] Transport closed.'' []]
   \<and> filter is_close
        (emitted (snd (snd (start env0 (Inr ()) (new_AgentManager, init_world))))
           (snd (snd (stop (Inr ())
              (snd (stop (Inr ()) (snd (start env0 (Inr ()) (new_AgentManager, init_world)))))))))
     = [Close \<lparr>transport_id = 0, command = pythonPath_of env0, args = [scriptPath_of env0]\<rparr>,
        Close \<lparr>transport_id = 0, command = pythonPath_of env0, args = [scriptPath_of env0]\<rparr>]"
  using stop_closes_transport
    [of "Inr ()" "snd (start env0 (Inr ()) (new_AgentManager, init_world))"
        "[PingAgent (Inl JNull)]" init_world "Inr ()"]
  by (simp add: start_transport init_world_def)

text \<open>
  C8. Under every sequence of calls of the three methods, each run to completion, on a
  new instance: the \<^verbatim>\<open>client\<close> field is non-null exactly when a call of \<^verbatim>\<open>connect\<close>
  has been made since the instance was created, that is, when a \<^verbatim>\<open>start\<close> has completed
  a connection attempt, fulfilled or rejected; and that is exactly when the sequence
  contains a call of \<^verbatim>\<open>start\<close>.
\<close>

theorem client_nonnull_iff_started:
  "(client (fst (run cs (new_AgentManager, w))) \<noteq> None
      \<longleftrightarrow> (\<exists>c t. Connect c t \<in> set (emitted w (snd (run cs (new_AgentManager, w))))))
   \<and> (client (fst (run cs (new_AgentManager, w))) \<noteq> None \<longleftrightarrow> list_ex is_start cs)"
  using run_client [of cs "(new_AgentManager, w)"]
        run_emitted_connect [of "(new_AgentManager, w)" cs]
  by (simp add: new_AgentManager_def)

theorem client_nonnull_iff_started_witness:
  "client (fst (run [PingAgent (Inl JNull), Start env0 (Inl spawn_error), Stop (Inl JNull)]
                  (new_AgentManager, init_world))) \<noteq> None
   \<and> (\<exists>c t. Connect c t \<in> set (trace (snd
          (run [PingAgent (Inl JNull), Start env0 (Inl spawn_error), Stop (Inl JNull)]
             (new_AgentManager, init_world)))))
   \<and> client (fst (run [PingAgent (Inl JNull), Stop (Inr ())] (new_AgentManager, init_world)))
       = None
   \<and> \<not> (\<exists>c t. Connect c t \<in> set (trace (snd
          (run [PingAgent (Inl JNull), Stop (Inr ())] (new_AgentManager, init_world)))))"
proof -
  let ?cs1 = "[PingAgent (Inl JNull), Start env0 (Inl spawn_error), Stop (Inl JNull)]"
  let ?cs2 = "[PingAgent (Inl JNull), Stop (Inr ())]"
  have em: "emitted init_world w' = trace w'" for w'
    by (simp add: emitted_def init_world_def)
  have s1: "list_ex is_start ?cs1" and s2: "\<not> list_ex is_start ?cs2"
    by simp_all
  note t1 = client_nonnull_iff_started [of ?cs1 init_world, unfolded em]
  note t2 = client_nonnull_iff_started [of ?cs2 init_world, unfolded em]
  have c1: "client (fst (run ?cs1 (new_AgentManager, init_world))) \<noteq> None"
    using t1 [THEN conjunct2] s1 by (rule iffD2)
  have e1: "\<exists>c t. Connect c t \<in> set (trace (snd (run ?cs1 (new_AgentManager, init_world))))"
    using t1 [THEN conjunct1] c1 by (rule iffD1)
  have c2: "\<not> client (fst (run ?cs2 (new_AgentManager, init_world))) \<noteq> None"
  proof
    assume "client (fst (run ?cs2 (new_AgentManager, init_world))) \<noteq> None"
    with t2 [THEN conjunct2] have "list_ex is_start ?cs2" by (rule iffD1)
    with s2 show False by (rule notE)
  qed
  have e2: "\<not> (\<exists>c t. Connect c t \<in> set (trace (snd (run ?cs2 (new_AgentManager, init_world)))))"
  proof
    assume "\<exists>c t. Connect c t \<in> set (trace (snd (run ?cs2 (new_AgentManager, init_world))))"
    with t2 [THEN conjunct1]
    have "client (fst (run ?cs2 (new_AgentManager, init_world))) \<noteq> None" by (rule iffD2)
    with c2 show False by (rule notE)
  qed
  from c2 have c2': "client (fst (run ?cs2 (new_AgentManager, init_world))) = None"
    by (simp del: run.simps)
  from c1 e1 c2' e2 show ?thesis
    by (intro conjI)
qed

text \<open>
  C9, as amended. After a completed \<^verbatim>\<open>start\<close>, whatever its checks and its connect
  did, and after any further calls, the \<^verbatim>\<open>client\<close> field is non-null, so \<^verbatim>\<open>pingAgent\<close>
  does not take the early return: it issues the \<^verbatim>\<open>ping\<close> call with no arguments through
  that client, and its outcome is the outcome of that call. It returns the string
  \<^verbatim>\<open>Client not initialized\<close> only when the first content element of the remote result
  carries that string as its text.
\<close>

theorem pingAgent_after_start_calls_remote:
  assumes "s = run cs (snd (start env connected s0))"
  shows "\<exists>c. client (fst s) = Some c
     \<and> CallTool c ''ping'' [] \<in> set (emitted (snd s) (snd (snd (pingAgent called s))))
     \<and> fst (pingAgent called s)
         = (case called of Inl e \<Rightarrow> Inl e | Inr result \<Rightarrow> first_text result)
     \<and> (fst (pingAgent called s) = Inr (JStr ''Client not initialized'') \<longrightarrow>
          (\<exists>result b bs. called = Inr result \<and> content result = b # bs
             \<and> get_prop b ''text'' = JStr ''Client not initialized''))"
proof -
  obtain this w where s0: "s0 = (this, w)" by (cases s0)
  have "client (fst (snd (start env connected s0))) \<noteq> None"
    unfolding s0 by (simp add: start_client)
  then have "client (fst s) \<noteq> None"
    unfolding assms by (simp add: run_client)
  then obtain c where c: "client (fst s) = Some c" by blast
  have res: "fst (pingAgent called s)
         = (case called of Inl e \<Rightarrow> Inl e | Inr result \<Rightarrow> first_text result)"
    using c by (rule pingAgent_result)
  have call: "CallTool c ''ping'' [] \<in> set (emitted (snd s) (snd (snd (pingAgent called s))))"
    using c by (simp add: emitted_def pingAgent_trace)
  have "\<exists>result b bs. called = Inr result \<and> content result = b # bs
             \<and> get_prop b ''text'' = JStr ''Client not initialized''"
    if "fst (pingAgent called s) = Inr (JStr ''Client not initialized'')"
  proof (cases called)
    case (Inl e)
    with that res show ?thesis by simp
  next
    case (Inr result)
    with that res have ft: "first_text result = Inr (JStr ''Client not initialized'')" by simp
    then obtain b bs where "content result = b # bs"
      by (cases "content result") (simp_all add: first_text_def)
    with ft Inr show ?thesis by (simp add: first_text_def)
  qed
  with c res call show ?thesis by blast
qed

theorem pingAgent_after_start_calls_remote_witness:
  "fst (pingAgent (Inr pong_result)
         (run [Stop (Inr ())] (snd (start env0 (Inl spawn_error) (new_AgentManager, init_world)))))
     = Inr (JStr ''pong'')"
  using pingAgent_after_start_calls_remote
    [OF refl, where called = "Inr pong_result" and cs = "[Stop (Inr ())]" and env = env0
       and connected = "Inl spawn_error" and ?s0.0 = "(new_AgentManager, init_world)"]
  by (auto simp: first_text_def pong_result_def get_prop_def)

text \<open>
  The claim as it was stated fails when the agent answers the ping with the text of the
  sentinel: after a \<^verbatim>\<open>start\<close>, \<^verbatim>\<open>pingAgent\<close> returns \<^verbatim>\<open>Client not initialized\<close>.
\<close>

theorem pingAgent_sentinel_text_counterexample:
  "fst (pingAgent (Inr sentinel_result)
         (snd (start env0 (Inr ()) (new_AgentManager, init_world))))
     = Inr (JStr ''Client not initialized'')"
  by (simp add: pingAgent_result [OF start_client] first_text_def get_prop_def
        sentinel_result_def)

text \<open>
  C10. When there is a transport and its \<^verbatim>\<open>close\<close> rejects, \<^verbatim>\<open>stop\<close> rejects with the
  same error; the only effect of the call is the call of \<^verbatim>\<open>close\<close> (the line that reports
  the closing is not written), and both fields stay as they were.
\<close>

theorem stop_propagates_close_rejection:
  "transport (fst s) = Some t \<Longrightarrow>
   fst (stop (Inl e) s) = Inl e
   \<and> fst (snd (stop (Inl e) s)) = fst s
   \<and> emitted (snd s) (snd (snd (stop (Inl e) s))) = [Close t]"
  by (simp add: stop_result stop_fields stop_emitted)

theorem stop_propagates_close_rejection_witness:
  "fst (stop (Inl (JError ''Error'' ''write EPIPE''))
         (snd (start env0 (Inr ()) (new_AgentManager, init_world))))
     = Inl (JError ''Error'' ''write EPIPE'')
   \<and> emitted (snd (snd (start env0 (Inr ()) (new_AgentManager, init_world))))
        (snd (snd (stop (Inl (JError ''Error'' ''write EPIPE''))
           (snd (start env0 (Inr ()) (new_AgentManager, init_world))))))
     = [Close \<lparr>transport_id = 0, command = pythonPath_of env0, args = [scriptPath_of env0]\<rparr>]"
  using stop_propagates_close_rejection
    [OF start_transport, of "JError ''Error'' ''write EPIPE''" env0 "Inr ()"
       new_AgentManager init_world]
  by (simp add: init_world_def)

end
